theory Spec2Isabelle
  imports Complex_Main "HOL-Library.Word"
begin

section \<open>Common vocabulary\<close>

text \<open>
  Python integers are unbounded and are modelled as \<open>int\<close>. A \<open>bytes\<close> object is a list
  of 8-bit words. The module logger is not part of any object: every operation returns
  the records it hands to the logger next to its result. Only the fixed part of a
  message is kept; the interpolated numbers and exception texts are dropped.
\<close>

type_synonym byte = "8 word"

datatype log_record = Debug string | Info string | Warning string | Error string

subsection \<open>Floats\<close>

text \<open>
  A finite Python float is an IEEE-754 double and is read as the real number it
  denotes; comparisons of floats are then comparisons of reals. A float literal and a
  float product are not the exact decimal or the exact product but the double nearest
  to it, ties going to the even significand. \<open>float_round\<close> is that rounding:
  \<open>binade x\<close> is the exponent \<open>e\<close> with \<open>2 ^ e \<le> x < 2 ^ (e + 1)\<close>, the spacing of the
  doubles around \<open>x\<close> is \<open>2 ^ (e - 52)\<close> (and \<open>2 ^ - 1074\<close> below \<open>2 ^ - 1022\<close>), and
  \<open>x\<close> is rounded to the nearest multiple of that spacing. Results beyond the largest
  double (\<open>inf\<close>) and \<open>nan\<close> are outside the model.
\<close>

definition pow2 :: "int \<Rightarrow> real" where
  "pow2 e = (if 0 \<le> e then 2 ^ nat e else 1 / 2 ^ nat (- e))"

definition round_half_even :: "real \<Rightarrow> int" where
  "round_half_even q =
     (let f = \<lfloor>q\<rfloor>; r = q - of_int f
      in if r < 1 / 2 then f else if 1 / 2 < r then f + 1 else if even f then f else f + 1)"

definition binade_measure :: "real \<Rightarrow> nat" where
  "binade_measure x =
     (if 2 \<le> x then nat \<lfloor>log 2 x\<rfloor>
      else if 0 < x \<and> x < 1 then nat \<lceil>- log 2 x\<rceil> else 0)"

function binade :: "real \<Rightarrow> int" where
  "binade x =
     (if x \<le> 0 then 0
      else if 2 \<le> x then binade (x / 2) + 1
      else if x < 1 then binade (x * 2) - 1
      else 0)"
  by pat_completeness auto
termination
proof (relation "measure binade_measure")
  show "wf (measure binade_measure)" by simp
next
  fix x :: real
  assume x: "2 \<le> x"
  then have l: "log 2 (x / 2) = log 2 x - 1" by (simp add: log_divide)
  from x have "1 \<le> log 2 x" by (simp add: le_log_iff)
  then have f: "1 \<le> \<lfloor>log 2 x\<rfloor>" by linarith
  have "binade_measure (x / 2) < binade_measure x"
  proof (cases "2 \<le> x / 2")
    case True
    with x f l show ?thesis by (simp add: binade_measure_def)
  next
    case False
    with x f show ?thesis by (simp add: binade_measure_def)
  qed
  then show "(x / 2, x) \<in> measure binade_measure" by simp
next
  fix x :: real
  assume x: "\<not> x \<le> 0" "x < 1"
  then have l: "log 2 (x * 2) = log 2 x + 1" by (simp add: log_mult)
  from x have "log 2 x < 0" by simp
  then have f: "1 \<le> \<lceil>- log 2 x\<rceil>" by linarith
  have "binade_measure (x * 2) < binade_measure x"
  proof (cases "x * 2 < 1")
    case True
    have "\<lceil>- log 2 x - 1\<rceil> = \<lceil>- log 2 x\<rceil> - 1" by linarith
    with True x f l show ?thesis by (simp add: binade_measure_def)
  next
    case False
    with x f show ?thesis by (simp add: binade_measure_def)
  qed
  then show "(x * 2, x) \<in> measure binade_measure" by simp
qed

declare binade.simps [simp del]

definition float_round :: "real \<Rightarrow> real" where
  "float_round x =
     (if x = 0 then 0
      else (let e = max (binade \<bar>x\<bar>) (- 1022) - 52
            in of_int (round_half_even (x / pow2 e)) * pow2 e))"

text \<open>Python's \<open>x * y\<close> on two floats.\<close>

definition float_mul :: "real \<Rightarrow> real \<Rightarrow> real" where
  "float_mul x y = float_round (x * y)"

section \<open>The audio sink: \<open>src/streaming/audio_streamer.py\<close>\<close>

subsection \<open>External objects\<close>

text \<open>
  PyAudio objects are opaque to the repository. A stream handle is modelled by what
  the two calls made on it do (return or raise), a PyAudio instance by what
  \<open>terminate()\<close> does, and the worker thread by whether it is alive. None of these
  objects defines \<open>__bool__\<close> or \<open>__len__\<close>, so a reference is truthy exactly when it is
  not \<open>None\<close>.
\<close>

datatype pa_stream = PaStream (stop_stream_raises: bool) (close_raises: bool)

datatype pa_instance = PyAudio (terminate_raises: bool)

datatype thread = Thread (is_alive: bool)

datatype pa_flag = paContinue | paComplete | paAbort

text \<open>
  What \<open>queue_audio\<close> is handed: a numpy array (of some array type \<open>'f\<close>) or anything
  else. What sits in the queue: an array (of the int16 array type \<open>'a\<close>) or raw bytes;
  \<open>_output_callback\<close> distinguishes the two with \<open>isinstance\<close>.
\<close>

datatype 'f audio_data = NdArray 'f | NotArray

datatype 'a queued = QArray 'a | QBytes "byte list"

subsection \<open>State\<close>

text \<open>
  The fields of \<open>AudioStreamer.__init__\<close>. \<open>format\<close> and \<open>callback_function\<close> are
  neither read nor written by the methods modelled below and are left out.
  \<open>audio_queue\<close> is \<open>queue.Queue(maxsize=100)\<close>: a FIFO whose head is the next item
  to be taken.
\<close>

record 'a streamer =
  sample_rate :: int
  channels :: int
  chunk_size :: int
  audio_queue :: "'a queued list"
  output_stream :: "pa_stream option"
  input_stream :: "pa_stream option"
  pyaudio_instance :: "pa_instance option"
  is_streaming :: bool
  is_recording :: bool
  stream_thread :: "thread option"
  latency_ms :: real
  buffer_underruns :: int
  last_audio_time :: real

definition maxsize :: nat where
  "maxsize = 100"

text \<open>
  \<open>Queue.full()\<close> is \<open>0 < maxsize <= qsize()\<close>. \<open>Queue.empty()\<close> is \<open>not qsize()\<close>: the
  queue is empty exactly when the list is \<open>[]\<close>, and \<open>get_nowait()\<close> on a queue that is
  not empty takes the head.
\<close>

definition full :: "'x list \<Rightarrow> bool" where
  "full q = (0 < maxsize \<and> maxsize \<le> length q)"

text \<open>\<open>AudioStreamer.__init__\<close>, with the three values read from \<open>settings\<close> as arguments.\<close>

definition init_streamer :: "int \<Rightarrow> int \<Rightarrow> int \<Rightarrow> 'a streamer" where
  "init_streamer rate ch chunk =
     \<lparr> sample_rate = rate, channels = ch, chunk_size = chunk,
       audio_queue = [], output_stream = None, input_stream = None,
       pyaudio_instance = None, is_streaming = False, is_recording = False,
       stream_thread = None, latency_ms = 0, buffer_underruns = 0,
       last_audio_time = 0 \<rparr>"

subsection \<open>\<open>queue_audio\<close>\<close>

text \<open>
  Lines 201 to 206 (reshape or \<open>column_stack\<close> by channel count, \<open>clip\<close>, scale,
  \<open>astype(np.int16)\<close>) are numpy calls on floating-point data; they are the parameter
  \<open>to_int16\<close>, which takes the channel count and the array and returns \<open>None\<close> when
  numpy raises. The \<open>put\<close> is only reached when the queue is not full, so it does not
  block.
\<close>

definition queue_audio ::
  "(int \<Rightarrow> 'f \<Rightarrow> 'a option) \<Rightarrow> 'a streamer \<Rightarrow> 'f audio_data
     \<Rightarrow> bool \<times> 'a streamer \<times> log_record list" where
  "queue_audio to_int16 s audio =
     (if \<not> is_streaming s then (False, s, [])
      else case audio of
        NdArray a \<Rightarrow>
          (case to_int16 (channels s) a of
             None \<Rightarrow> (False, s, [Error ''Failed to queue audio''])
           | Some audio_int16 \<Rightarrow>
               if \<not> full (audio_queue s)
               then (True, s\<lparr>audio_queue := audio_queue s @ [QArray audio_int16]\<rparr>, [])
               else (False, s, [Warning ''Audio queue full, dropping frame'']))
      | NotArray \<Rightarrow> (False, s, [Error ''Invalid audio data type'']))"

subsection \<open>\<open>_output_callback\<close>\<close>

text \<open>Python's \<open>b'\x00' * n\<close>: empty when \<open>n\<close> is not positive.\<close>

definition zeros :: "int \<Rightarrow> byte list" where
  "zeros n = replicate (nat n) 0"

text \<open>Python's \<open>data[:n]\<close>: a negative \<open>n\<close> counts from the end.\<close>

definition slice_to :: "int \<Rightarrow> 'x list \<Rightarrow> 'x list" where
  "slice_to n xs = (if 0 \<le> n then take (nat n) xs else take (nat (int (length xs) + n)) xs)"

text \<open>
  The callback is registered with PyAudio and invoked by it, so the module \<open>pyaudio\<close>
  is present and \<open>pyaudio.paContinue\<close> evaluates. \<open>to_bytes\<close> is the numpy expression
  \<open>(audio_data * 32767).astype(np.int16).tobytes()\<close> (\<open>None\<close> when it raises);
  \<open>now\<close> is the value of \<open>time.time()\<close>. The arguments \<open>in_data\<close>, \<open>time_info\<close> and
  \<open>status\<close> are not used by the body.
\<close>

definition output_callback ::
  "('a \<Rightarrow> byte list option) \<Rightarrow> real \<Rightarrow> 'a streamer \<Rightarrow> int
     \<Rightarrow> (byte list \<times> pa_flag) \<times> 'a streamer \<times> log_record list" where
  "output_callback to_bytes now s frame_count =
     (case audio_queue s of
        item # rest \<Rightarrow>
          (let s1 = s\<lparr>audio_queue := rest\<rparr> in
           case (case item of QArray a \<Rightarrow> to_bytes a | QBytes b \<Rightarrow> Some b) of
             None \<Rightarrow>
               ((zeros (frame_count * channels s * 2), paContinue), s1,
                [Error ''Output callback error''])
           | Some audio_bytes \<Rightarrow>
               (let required_bytes = frame_count * channels s * 2;
                    out = (if int (length audio_bytes) < required_bytes
                           then audio_bytes @ zeros (required_bytes - int (length audio_bytes))
                           else if int (length audio_bytes) > required_bytes
                           then slice_to required_bytes audio_bytes
                           else audio_bytes)
                in ((out, paContinue), s1\<lparr>last_audio_time := now\<rparr>, [])))
      | [] \<Rightarrow>
          ((zeros (frame_count * channels s * 2), paContinue),
           s\<lparr>buffer_underruns := buffer_underruns s + 1\<rparr>, []))"

subsection \<open>\<open>adjust_latency\<close>\<close>

text \<open>
  The default of \<open>target_latency_ms\<close> is 200.0; \<open>//\<close> is floor division, as \<open>div\<close> is.
  The two thresholds are float products; the literals 1.5 and 0.5 are doubles.
\<close>

definition adjust_latency :: "'a streamer \<Rightarrow> real \<Rightarrow> 'a streamer \<times> log_record list" where
  "adjust_latency s target_latency_ms =
     (let current_latency = latency_ms s in
      if current_latency > float_mul target_latency_ms 1.5 then
        (let new_chunk_size = max 256 (chunk_size s div 2)
         in (s\<lparr>chunk_size := new_chunk_size\<rparr>, [Info ''Reducing chunk size'']))
      else if current_latency < float_mul target_latency_ms 0.5 then
        (let new_chunk_size = min 4096 (chunk_size s * 2)
         in (s\<lparr>chunk_size := new_chunk_size\<rparr>, [Info ''Increasing chunk size'']))
      else (s, []))"

subsection \<open>\<open>stop_streaming\<close> and \<open>cleanup\<close>\<close>

text \<open>
  Each guarded block of \<open>stop_streaming\<close> either completes or raises at one of its
  device calls; when it raises, the assignment of \<open>None\<close> after the calls has not
  happened. \<open>join(timeout=2.0)\<close> on a live worker: the worker re-reads
  \<open>is_streaming\<close>, which is already false, after a sleep of at most one second, so
  the thread is read as finished when \<open>join\<close> returns.
\<close>

datatype exn = OSError

definition close_output :: "'a streamer \<Rightarrow> exn + 'a streamer" where
  "close_output s =
     (case output_stream s of
        None \<Rightarrow> Inr s
      | Some h \<Rightarrow>
          if stop_stream_raises h then Inl OSError
          else if close_raises h then Inl OSError
          else Inr (s\<lparr>output_stream := None\<rparr>))"

definition close_input :: "'a streamer \<Rightarrow> exn + 'a streamer" where
  "close_input s =
     (case input_stream s of
        None \<Rightarrow> Inr s
      | Some h \<Rightarrow>
          if stop_stream_raises h then Inl OSError
          else if close_raises h then Inl OSError
          else Inr (s\<lparr>input_stream := None\<rparr>))"

definition join_thread :: "'a streamer \<Rightarrow> 'a streamer" where
  "join_thread s =
     (case stream_thread s of
        None \<Rightarrow> s
      | Some t \<Rightarrow> if is_alive t then s\<lparr>stream_thread := Some (Thread False)\<rparr> else s)"

definition stop_streaming :: "'a streamer \<Rightarrow> 'a streamer \<times> log_record list" where
  "stop_streaming s =
     (let s1 = s\<lparr>is_streaming := False, is_recording := False\<rparr> in
      case close_output s1 of
        Inl e \<Rightarrow> (s1, [Error ''Error stopping streaming''])
      | Inr s2 \<Rightarrow>
          (case close_input s2 of
             Inl e \<Rightarrow> (s2, [Error ''Error stopping streaming''])
           | Inr s3 \<Rightarrow> (join_thread s3, [Info ''Audio streaming stopped''])))"

text \<open>The \<open>while not self.audio_queue.empty()\<close> loop of \<open>cleanup\<close>.\<close>

fun clear_queue :: "'x list \<Rightarrow> 'x list" where
  "clear_queue [] = []"
| "clear_queue (x # q) = clear_queue q"

definition terminate_pyaudio :: "'a streamer \<Rightarrow> 'a streamer \<times> log_record list" where
  "terminate_pyaudio s =
     (case pyaudio_instance s of
        None \<Rightarrow> (s, [])
      | Some p \<Rightarrow>
          (s\<lparr>pyaudio_instance := None\<rparr>,
           if terminate_raises p then [Error ''Error terminating PyAudio''] else []))"

definition cleanup :: "'a streamer \<Rightarrow> 'a streamer \<times> log_record list" where
  "cleanup s =
     (let (s1, l1) = stop_streaming s;
          (s2, l2) = terminate_pyaudio s1;
          s3 = s2\<lparr>audio_queue := clear_queue (audio_queue s2)\<rparr>
      in (s3, l1 @ l2 @ [Info ''Audio streamer cleaned up'']))"

text \<open>Both device calls on a handle return; no handle counts as such.\<close>

definition closes_cleanly :: "pa_stream option \<Rightarrow> bool" where
  "closes_cleanly h =
     (case h of None \<Rightarrow> True | Some p \<Rightarrow> \<not> stop_stream_raises p \<and> \<not> close_raises p)"

subsection \<open>Example sinks\<close>

text \<open>
  A sink built with the default settings (22050 Hz, one channel, chunks of 1024)
  whose queue holds 100 chunks, first stopped and then streaming; and a sink in the
  middle of playback, with an open output stream, a live worker and one chunk
  waiting.
\<close>

definition full_idle_sink :: "nat streamer" where
  "full_idle_sink = (init_streamer 22050 1 1024)\<lparr>audio_queue := replicate 100 (QBytes [])\<rparr>"

definition full_streaming_sink :: "nat streamer" where
  "full_streaming_sink = full_idle_sink\<lparr>is_streaming := True\<rparr>"

text \<open>
  The doubles that the literals \<open>100.2\<close> and \<open>150.3\<close> denote, and a sink whose measured
  latency is the latter.
\<close>

definition target_100_2 :: real where
  "target_100_2 = 7050948166601933 / 2 ^ 46"

definition latency_150_3 :: real where
  "latency_150_3 = 2644105562475725 / 2 ^ 44"

definition lagging_sink :: "nat streamer" where
  "lagging_sink = (init_streamer 22050 1 1024)\<lparr>latency_ms := latency_150_3\<rparr>"

definition playing_sink :: "nat streamer" where
  "playing_sink =
     (init_streamer 22050 1 1024)
       \<lparr>audio_queue := [QBytes [1, 2]],
        output_stream := Some (PaStream False False),
        pyaudio_instance := Some (PyAudio False),
        is_streaming := True,
        stream_thread := Some (Thread True)\<rparr>"

section \<open>Voice profiles: \<open>src/config/settings.py\<close>\<close>

datatype VoiceEngine = XTTS_V2 | CHATTTS | REALTIME_TTS

record VoiceProfile =
  name :: string
  gender :: string
  age_range :: string
  language :: string
  pitch :: real
  speed :: real
  emotion :: string
  voice_sample_path :: "string option"

text \<open>
  \<open>VoiceProfile.__init__\<close>: eight assignments and nothing else. The defaults of the
  keyword arguments (\<open>"female"\<close>, \<open>"young"\<close>, \<open>"auto"\<close>, 1.0, 1.0, \<open>"neutral"\<close>, \<open>None\<close>)
  are written out at each call below.
\<close>

definition new_VoiceProfile ::
  "string \<Rightarrow> string \<Rightarrow> string \<Rightarrow> string \<Rightarrow> real \<Rightarrow> real \<Rightarrow> string \<Rightarrow> string option
     \<Rightarrow> VoiceProfile" where
  "new_VoiceProfile n g a l p s e v =
     \<lparr> name = n, gender = g, age_range = a, language = l, pitch = p, speed = s,
       emotion = e, voice_sample_path = v \<rparr>"

section \<open>The voice manager: \<open>src/voice_engine/voice_manager.py\<close>\<close>

subsection \<open>Engines\<close>

text \<open>
  An engine is an object of one of three classes outside the manager; the manager
  looks at it only through \<open>hasattr\<close> and by calling \<open>synthesize\<close> and
  \<open>synthesize_streaming\<close>. An engine is therefore modelled by an identity (Python
  compares engine objects with \<open>!=\<close> by identity) and, for each of the two methods,
  either \<open>None\<close> (the attribute is absent) or what a call does: raise an exception or
  return a value. A batch call returns an array or \<open>None\<close>; a streaming call returns
  a generator, modelled by the finite sequence of chunks it would yield.
  \<open>**kwargs\<close> is taken to be empty.
\<close>

datatype 'r outcome = Raises | Returns 'r

datatype chunk = ArrayChunk "real list" | BytesChunk "byte list" | NoneChunk

record call_args =
  arg_text :: string
  arg_language :: string
  arg_speaker_wav :: "string option"
  arg_voice_profile :: "VoiceProfile option"

record engine =
  eid :: nat
  synthesize_attr :: "(call_args \<Rightarrow> real list option outcome) option"
  synthesize_streaming_attr :: "(call_args \<Rightarrow> chunk list outcome) option"

datatype attr = Synthesize | SynthesizeStreaming

text \<open>
  What a manager operation does besides returning: it calls engine methods and hands
  records to the logger. Both are collected, in program order, in a list of events.
\<close>

datatype event = Call nat attr call_args | Log log_record

datatype SynthesisMode = BATCH | STREAMING | REALTIME

datatype synth_result = NoResult | Audio "real list" | Chunks "chunk list"

subsection \<open>State\<close>

text \<open>
  The two dictionaries are association lists in insertion order, since
  \<open>next(iter(d.values()))\<close> reads the first inserted value.
\<close>

record manager =
  engines :: "(VoiceEngine \<times> engine) list"
  current_engine :: "engine option"
  fallback_engine :: "engine option"
  voice_profiles :: "(string \<times> VoiceProfile) list"
  current_profile :: "VoiceProfile option"
  is_initialized :: bool

definition init_manager :: manager where
  "init_manager =
     \<lparr> engines = [], current_engine = None, fallback_engine = None,
       voice_profiles = [], current_profile = None, is_initialized = False \<rparr>"

text \<open>\<open>d[k] = v\<close>: an existing key keeps its position, a new key goes to the end.\<close>

fun dict_set :: "'k \<Rightarrow> 'v \<Rightarrow> ('k \<times> 'v) list \<Rightarrow> ('k \<times> 'v) list" where
  "dict_set k v [] = [(k, v)]"
| "dict_set k v ((k', v') # d) = (if k' = k then (k, v) # d else (k', v') # dict_set k v d)"

text \<open>
  \<open>next(iter(d.values()))\<close>. The code reaches it only when \<open>d\<close> is not empty; on an
  empty dictionary it would raise \<open>StopIteration\<close>, which is \<open>None\<close> here.
\<close>

fun first_value :: "('k \<times> 'v) list \<Rightarrow> 'v option" where
  "first_value [] = None"
| "first_value ((k, v) # d) = Some v"

definition load_default_profiles :: "manager \<Rightarrow> manager" where
  "load_default_profiles m =
     (let cute = new_VoiceProfile ''cute_girl'' ''female'' ''young'' ''auto''
                   (float_round 1.2) (float_round 1.0) ''cheerful'' None;
          asmr = new_VoiceProfile ''asmr_girl'' ''female'' ''young'' ''auto''
                   (float_round 0.9) (float_round 0.8) ''calm'' None;
          energetic = new_VoiceProfile ''energetic_girl'' ''female'' ''young'' ''auto''
                   (float_round 1.3) (float_round 1.2) ''excited'' None;
          d = dict_set ''energetic_girl'' energetic
                (dict_set ''asmr_girl'' asmr
                  (dict_set ''cute_girl'' cute (voice_profiles m)))
      in m\<lparr>voice_profiles := d, current_profile := map_of d ''cute_girl''\<rparr>)"

subsection \<open>\<open>_get_voice_profile\<close> and \<open>_select_engine\<close>\<close>

text \<open>
  \<open>profile_name\<close> is an \<open>Optional[str]\<close>; it is falsy when it is \<open>None\<close> or the empty
  string. A \<open>VoiceProfile\<close> and an engine are always truthy.
\<close>

definition get_voice_profile :: "manager \<Rightarrow> string option \<Rightarrow> VoiceProfile option" where
  "get_voice_profile m profile_name =
     (case (case profile_name of
              None \<Rightarrow> None
            | Some n \<Rightarrow> if n \<noteq> [] then map_of (voice_profiles m) n else None) of
        Some p \<Rightarrow> Some p
      | None \<Rightarrow>
          (case current_profile m of
             Some p \<Rightarrow> Some p
           | None \<Rightarrow>
               if voice_profiles m \<noteq> [] then first_value (voice_profiles m) else None))"

definition select_engine :: "manager \<Rightarrow> SynthesisMode \<Rightarrow> engine option" where
  "select_engine m mode =
     (if mode = REALTIME \<and> map_of (engines m) REALTIME_TTS \<noteq> None
      then map_of (engines m) REALTIME_TTS
      else if (mode = BATCH \<or> mode = STREAMING) \<and> current_engine m \<noteq> None
      then current_engine m
      else if engines m \<noteq> [] then first_value (engines m)
      else None)"

subsection \<open>\<open>_convert_to_streaming\<close>\<close>

text \<open>
  \<open>(audio * 32767).astype(np.int16)\<close> is numpy arithmetic on floats, applied to each
  sample: the parameter \<open>scale_int16\<close>. \<open>tobytes()\<close> lays the 16-bit samples out in
  order, two bytes each, low byte first on the machines the program runs on.
\<close>

definition int16_bytes :: "16 word \<Rightarrow> byte list" where
  "int16_bytes w = [ucast w, ucast (drop_bit 8 w)]"

definition tobytes :: "16 word list \<Rightarrow> byte list" where
  "tobytes ws = concat (map int16_bytes ws)"

text \<open>
  The loop \<open>for i in range(0, len(audio_bytes), step): yield audio_bytes[i:i + step]\<close>
  for a positive \<open>step\<close>, started at index \<open>i\<close>.
\<close>

function chunks_from :: "nat \<Rightarrow> nat \<Rightarrow> 'x list \<Rightarrow> 'x list list" where
  "chunks_from i step bs =
     (if step = 0 \<or> length bs \<le> i then []
      else take step (drop i bs) # chunks_from (i + step) step bs)"
  by pat_completeness auto
termination
  by (relation "measure (\<lambda>(i, step, bs). length bs - i)") auto

declare chunks_from.simps [simp del]

text \<open>
  The sequence the generator yields. \<open>range\<close> with step 0 raises \<open>ValueError\<close>, which
  the generator's own \<open>except\<close> turns into a log record and an empty sequence; a
  negative step gives an empty range. The default of \<open>chunk_size\<close> is 1024.
\<close>

definition convert_to_streaming :: "(real \<Rightarrow> 16 word) \<Rightarrow> real list \<Rightarrow> int \<Rightarrow> byte list list" where
  "convert_to_streaming scale_int16 audio chunk_sz =
     (let audio_int16 = map scale_int16 audio;
          audio_bytes = tobytes audio_int16
      in if chunk_sz * 2 \<le> 0 then []
         else chunks_from 0 (nat (chunk_sz * 2)) audio_bytes)"

subsection \<open>The three dispatch helpers\<close>

text \<open>
  Each helper wraps its whole body in \<open>try ... except Exception\<close> and returns \<open>None\<close>
  from the handler, so an exception raised by an engine never leaves the helper.
\<close>

definition speaker_wav_of :: "VoiceProfile option \<Rightarrow> string option" where
  "speaker_wav_of vp = (case vp of Some p \<Rightarrow> voice_sample_path p | None \<Rightarrow> None)"

definition synthesize_batch ::
  "engine \<Rightarrow> string \<Rightarrow> string \<Rightarrow> VoiceProfile option \<Rightarrow> synth_result \<times> event list" where
  "synthesize_batch e text lang vp =
     (case synthesize_attr e of
        Some f \<Rightarrow>
          (let args = \<lparr> arg_text = text, arg_language = lang,
                        arg_speaker_wav = speaker_wav_of vp, arg_voice_profile = vp \<rparr>
           in case f args of
                Raises \<Rightarrow>
                  (NoResult, [Call (eid e) Synthesize args, Log (Error ''Batch synthesis failed'')])
              | Returns None \<Rightarrow> (NoResult, [Call (eid e) Synthesize args])
              | Returns (Some a) \<Rightarrow> (Audio a, [Call (eid e) Synthesize args]))
      | None \<Rightarrow> (NoResult, [Log (Error ''Engine doesn't support batch synthesis'')]))"

definition synthesize_streaming ::
  "(real \<Rightarrow> 16 word) \<Rightarrow> engine \<Rightarrow> string \<Rightarrow> string \<Rightarrow> VoiceProfile option
     \<Rightarrow> synth_result \<times> event list" where
  "synthesize_streaming scale_int16 e text lang vp =
     (case synthesize_streaming_attr e of
        Some g \<Rightarrow>
          (let args = \<lparr> arg_text = text, arg_language = lang,
                        arg_speaker_wav = None, arg_voice_profile = vp \<rparr>
           in case g args of
                Raises \<Rightarrow>
                  (NoResult,
                   [Call (eid e) SynthesizeStreaming args, Log (Error ''Streaming synthesis failed'')])
              | Returns cs \<Rightarrow> (Chunks cs, [Call (eid e) SynthesizeStreaming args]))
      | None \<Rightarrow>
          (case synthesize_attr e of
             Some f \<Rightarrow>
               (let args = \<lparr> arg_text = text, arg_language = lang,
                             arg_speaker_wav = speaker_wav_of vp, arg_voice_profile = vp \<rparr>
                in case f args of
                     Raises \<Rightarrow>
                       (NoResult,
                        [Call (eid e) Synthesize args, Log (Error ''Streaming synthesis failed'')])
                   | Returns None \<Rightarrow>
                       (NoResult,
                        [Call (eid e) Synthesize args,
                         Log (Error ''Engine doesn't support streaming synthesis'')])
                   | Returns (Some audio) \<Rightarrow>
                       (Chunks (map BytesChunk (convert_to_streaming scale_int16 audio 1024)),
                        [Call (eid e) Synthesize args]))
           | None \<Rightarrow>
               (NoResult, [Log (Error ''Engine doesn't support streaming synthesis'')])))"

text \<open>
  \<open>_synthesize_realtime\<close> calls \<open>synthesize_streaming\<close> on the registered realtime
  engine without \<open>hasattr\<close>; where the attribute is absent the call raises
  \<open>AttributeError\<close> before anything is invoked, and the handler returns \<open>None\<close>.
\<close>

definition synthesize_realtime ::
  "(real \<Rightarrow> 16 word) \<Rightarrow> manager \<Rightarrow> engine \<Rightarrow> string \<Rightarrow> string \<Rightarrow> VoiceProfile option
     \<Rightarrow> synth_result \<times> event list" where
  "synthesize_realtime scale_int16 m e text lang vp =
     (case map_of (engines m) REALTIME_TTS of
        Some realtime_engine \<Rightarrow>
          (case synthesize_streaming_attr realtime_engine of
             None \<Rightarrow> (NoResult, [Log (Error ''Real-time synthesis failed'')])
           | Some g \<Rightarrow>
               (let args = \<lparr> arg_text = text, arg_language = lang,
                             arg_speaker_wav = None, arg_voice_profile = vp \<rparr>
                in case g args of
                     Raises \<Rightarrow>
                       (NoResult,
                        [Call (eid realtime_engine) SynthesizeStreaming args,
                         Log (Error ''Real-time synthesis failed'')])
                   | Returns cs \<Rightarrow>
                       (Chunks cs, [Call (eid realtime_engine) SynthesizeStreaming args])))
      | None \<Rightarrow> synthesize_streaming scale_int16 e text lang vp)"

definition dispatch ::
  "(real \<Rightarrow> 16 word) \<Rightarrow> manager \<Rightarrow> engine \<Rightarrow> string \<Rightarrow> string \<Rightarrow> VoiceProfile option
     \<Rightarrow> SynthesisMode \<Rightarrow> synth_result \<times> event list" where
  "dispatch scale_int16 m e text lang vp mode =
     (case mode of
        BATCH \<Rightarrow> synthesize_batch e text lang vp
      | STREAMING \<Rightarrow> synthesize_streaming scale_int16 e text lang vp
      | REALTIME \<Rightarrow> synthesize_realtime scale_int16 m e text lang vp)"

subsection \<open>\<open>_try_fallback\<close> and \<open>synthesize\<close>\<close>

definition try_fallback ::
  "(real \<Rightarrow> 16 word) \<Rightarrow> manager \<Rightarrow> string \<Rightarrow> string option \<Rightarrow> string \<Rightarrow> SynthesisMode
     \<Rightarrow> synth_result \<times> event list" where
  "try_fallback scale_int16 m text voice_profile_name lang mode =
     (case fallback_engine m of
        None \<Rightarrow> (NoResult, [])
      | Some fb \<Rightarrow>
          if (case current_engine m of None \<Rightarrow> True | Some c \<Rightarrow> eid fb \<noteq> eid c) then
            (let voice_profile = get_voice_profile m voice_profile_name;
                 (r, evs) = dispatch scale_int16 m fb text lang voice_profile mode
             in (r, Log (Info ''Trying fallback engine'') # evs))
          else (NoResult, []))"

text \<open>
  The body of the \<open>try\<close> in \<open>synthesize\<close>. Its value is \<open>Inl\<close> when an exception reaches
  the handler of \<open>synthesize\<close> and \<open>Inr\<close> when the body returns. The body consists of
  two attribute reads, the dictionary lookups of \<open>_get_voice_profile\<close> and
  \<open>_select_engine\<close>, and one call of a helper that handles every exception itself:
  no statement of it raises, so no branch below is \<open>Inl\<close>. The last \<open>else\<close> of the
  source (an unknown mode) is not reachable with a \<open>SynthesisMode\<close>.
\<close>

definition synthesize_try ::
  "(real \<Rightarrow> 16 word) \<Rightarrow> manager \<Rightarrow> string \<Rightarrow> string option \<Rightarrow> string \<Rightarrow> SynthesisMode
     \<Rightarrow> exn + synth_result \<times> event list" where
  "synthesize_try scale_int16 m text voice_profile_name lang mode =
     (if \<not> is_initialized m then Inr (NoResult, [Log (Error ''Voice Manager not initialized'')])
      else
        (let voice_profile = get_voice_profile m voice_profile_name in
         case select_engine m mode of
           None \<Rightarrow> Inr (NoResult, [Log (Error ''No suitable engine available'')])
         | Some e \<Rightarrow> Inr (dispatch scale_int16 m e text lang voice_profile mode)))"

definition synthesize ::
  "(real \<Rightarrow> 16 word) \<Rightarrow> manager \<Rightarrow> string \<Rightarrow> string option \<Rightarrow> string \<Rightarrow> SynthesisMode
     \<Rightarrow> synth_result \<times> event list" where
  "synthesize scale_int16 m text voice_profile_name lang mode =
     (case synthesize_try scale_int16 m text voice_profile_name lang mode of
        Inr r \<Rightarrow> r
      | Inl ex \<Rightarrow>
          (let (r, evs) = try_fallback scale_int16 m text voice_profile_name lang mode
           in (r, Log (Error ''Synthesis failed'') # evs)))"

text \<open>The engine calls among the events, as pairs of engine identity and attribute called.\<close>

fun invocations :: "event list \<Rightarrow> (nat \<times> attr) list" where
  "invocations [] = []"
| "invocations (Call i meth a # evs) = (i, meth) # invocations evs"
| "invocations (Log r # evs) = invocations evs"


text \<open>\<open>hasattr(engine, ...)\<close> for the two attributes.\<close>

definition supports :: "engine \<Rightarrow> attr \<Rightarrow> bool" where
  "supports e a =
     (case a of
        Synthesize \<Rightarrow> synthesize_attr e \<noteq> None
      | SynthesizeStreaming \<Rightarrow> synthesize_streaming_attr e \<noteq> None)"

subsection \<open>Example engines and managers\<close>

text \<open>
  An engine with only the batch attribute and an engine with only the streaming
  attribute, each answering every call in the same way; a manager as \<open>initialize\<close>
  leaves it with a primary engine registered as XTTS-v2 and a distinct fallback
  registered as ChatTTS; and a manager as \<open>initialize\<close> leaves it when only the
  RealtimeTTS engine could be loaded, which then becomes the current engine.
\<close>

definition batch_only :: "nat \<Rightarrow> real list option outcome \<Rightarrow> engine" where
  "batch_only i r =
     \<lparr> eid = i, synthesize_attr = Some (\<lambda>args. r), synthesize_streaming_attr = None \<rparr>"

definition incremental_only :: "nat \<Rightarrow> chunk list outcome \<Rightarrow> engine" where
  "incremental_only i r =
     \<lparr> eid = i, synthesize_attr = None, synthesize_streaming_attr = Some (\<lambda>args. r) \<rparr>"

definition primary_and_fallback :: "engine \<Rightarrow> engine \<Rightarrow> manager" where
  "primary_and_fallback p f =
     (load_default_profiles init_manager)
       \<lparr>engines := [(XTTS_V2, p), (CHATTTS, f)],
        current_engine := Some p,
        fallback_engine := Some f,
        is_initialized := True\<rparr>"

definition realtime_alone :: "engine \<Rightarrow> manager" where
  "realtime_alone r =
     (load_default_profiles init_manager)
       \<lparr>engines := [(REALTIME_TTS, r)],
        current_engine := Some r,
        is_initialized := True\<rparr>"

text \<open>
  Stand-ins for the numpy conversions where an example needs one: a scaling that
  sends every sample to the 16-bit value 258 (bytes 2 and 1), and a queue conversion
  that never raises.
\<close>

definition example_scale :: "real \<Rightarrow> 16 word" where
  "example_scale x = 258"

definition converts :: "int \<Rightarrow> nat \<Rightarrow> nat option" where
  "converts ch a = Some a"

section \<open>Properties of the audio sink\<close>

subsection \<open>Enqueueing on a full queue\<close>

text \<open>
  C3 (as the code has it). \<open>queue_audio\<close> first looks at \<open>is_streaming\<close>. On a sink
  that is streaming and whose queue is full, an array that numpy converts is refused:
  the call returns \<open>False\<close>, the sink (queue included) is exactly as before, and one
  warning "Audio queue full, dropping frame" goes to the logger. The sink has no
  counter of dropped frames; the warning is the only trace. On a sink that is not
  streaming the call returns \<open>False\<close> and records nothing, full queue or not.
\<close>

theorem queue_audio_full_drops:
  "(is_streaming s \<and> full (audio_queue s) \<and> to_int16 (channels s) a = Some x \<longrightarrow>
      queue_audio to_int16 s (NdArray a)
        = (False, s, [Warning ''Audio queue full, dropping frame'']))
   \<and> (\<not> is_streaming s \<longrightarrow> queue_audio to_int16 s d = (False, s, []))"
  by (simp add: queue_audio_def)

theorem queue_audio_full_drops_witness:
  "is_streaming full_streaming_sink \<and> full (audio_queue full_streaming_sink)
   \<and> queue_audio converts full_streaming_sink (NdArray (7::nat))
       = (False, full_streaming_sink, [Warning ''Audio queue full, dropping frame''])
   \<and> \<not> is_streaming full_idle_sink
   \<and> queue_audio converts full_idle_sink (NotArray :: nat audio_data)
       = (False, full_idle_sink, [])"
  using queue_audio_full_drops
          [of full_streaming_sink converts 7 7 "NotArray :: nat audio_data"]
        queue_audio_full_drops
          [of full_idle_sink converts 7 7 "NotArray :: nat audio_data"]
  by (simp add: full_streaming_sink_def full_idle_sink_def init_streamer_def full_def
        maxsize_def converts_def)

text \<open>
  The claim as written fails on a stopped sink whose queue is still full (the queue
  survives \<open>stop_streaming\<close>): the chunk is refused, but nothing is counted or logged
  and no field of the sink changes.
\<close>

theorem queue_audio_full_idle_counterexample:
  "full (audio_queue full_idle_sink)
   \<and> queue_audio converts full_idle_sink (NdArray (7::nat))
       = (False, full_idle_sink, [])"
  by (simp add: queue_audio_def full_idle_sink_def init_streamer_def full_def maxsize_def)

subsection \<open>Underrun\<close>

text \<open>
  C4. When the queue is empty at a tick of the output callback, the callback returns
  \<open>frame_count * channels * 2\<close> zero bytes with \<open>paContinue\<close>, adds exactly one to
  \<open>buffer_underruns\<close>, changes nothing else and logs nothing.
\<close>

theorem output_callback_underrun:
  assumes "audio_queue s = []"
  shows "output_callback to_bytes now s frame_count =
           ((replicate (nat (frame_count * channels s * 2)) 0, paContinue),
            s\<lparr>buffer_underruns := buffer_underruns s + 1\<rparr>, [])
         \<and> buffer_underruns (fst (snd (output_callback to_bytes now s frame_count)))
             = buffer_underruns s + 1
         \<and> (0 \<le> frame_count * channels s \<longrightarrow>
              int (length (fst (fst (output_callback to_bytes now s frame_count))))
                = frame_count * channels s * 2)"
  using assms by (simp add: output_callback_def zeros_def)

theorem output_callback_underrun_witness:
  "audio_queue (init_streamer 22050 1 1024 :: nat streamer) = []
   \<and> fst (fst (output_callback (\<lambda>a. Some []) 5 (init_streamer 22050 1 1024 :: nat streamer) 2))
       = [0, 0, 0, 0]
   \<and> buffer_underruns
       (fst (snd (output_callback (\<lambda>a. Some []) 5 (init_streamer 22050 1 1024 :: nat streamer) 2)))
       = 1"
  using output_callback_underrun
          [of "init_streamer 22050 1 1024 :: nat streamer" "\<lambda>a. Some []" 5 2]
  by (simp add: init_streamer_def numeral_eq_Suc)

subsection \<open>Latency controller\<close>

lemma float_mul_200: "float_mul 200 (3 / 2) = 300"
  by code_simp

text \<open>
  C6 (as the code has it). One call of \<open>adjust_latency\<close> with measured latency
  \<open>L = latency_ms\<close>, target \<open>T\<close> and chunk size \<open>c\<close> changes only the chunk size, and the
  thresholds are the float products \<open>T * 1.5\<close> and \<open>T * 0.5\<close>, that is the exact
  products rounded to the nearest double: the chunk size becomes \<open>max 256 (c div 2)\<close>
  when \<open>L\<close> exceeds the first, \<open>min 4096 (2 * c)\<close> when \<open>L\<close> is below the second, and
  stays as it is otherwise. With \<open>L = 350\<close> and \<open>T = 200\<close> the product is exactly 300 and
  the chunk size is halved once (down to the floor 256).
\<close>

theorem adjust_latency_chunk_size:
  "fst (adjust_latency s T) =
     s\<lparr>chunk_size :=
          (if latency_ms s > float_mul T 1.5 then max 256 (chunk_size s div 2)
           else if latency_ms s < float_mul T 0.5 then min 4096 (2 * chunk_size s)
           else chunk_size s)\<rparr>
   \<and> (latency_ms s = 350 \<longrightarrow>
        chunk_size (fst (adjust_latency s 200)) = max 256 (chunk_size s div 2))"
proof -
  have rule: "fst (adjust_latency s T) =
     s\<lparr>chunk_size :=
          (if latency_ms s > float_mul T 1.5 then max 256 (chunk_size s div 2)
           else if latency_ms s < float_mul T 0.5 then min 4096 (2 * chunk_size s)
           else chunk_size s)\<rparr>" for T
    by (simp add: adjust_latency_def Let_def mult.commute)
  have "chunk_size (fst (adjust_latency s 200)) = max 256 (chunk_size s div 2)"
    if "latency_ms s = 350"
    using that by (simp add: rule [of 200] float_mul_200)
  with rule [of T] show ?thesis by simp
qed

theorem adjust_latency_chunk_size_witness:
  "latency_ms ((init_streamer 22050 1 1024 :: nat streamer)\<lparr>latency_ms := 350\<rparr>) = 350
   \<and> chunk_size
       (fst (adjust_latency ((init_streamer 22050 1 1024 :: nat streamer)\<lparr>latency_ms := 350\<rparr>) 200))
       = 512"
  using adjust_latency_chunk_size
          [of "(init_streamer 22050 1 1024 :: nat streamer)\<lparr>latency_ms := 350\<rparr>" 200]
  by (simp add: init_streamer_def float_mul_200)

text \<open>
  The claim as written, with the exact product \<open>1.5 * T\<close> as threshold, fails: for the
  target \<open>100.2\<close> and a measured latency of \<open>150.3\<close> the latency exceeds the exact
  product, but the float product \<open>100.2 * 1.5\<close> rounds up to \<open>150.3\<close> itself, the
  comparison is false and the chunk size stays 1024.
\<close>

theorem adjust_latency_exact_threshold_counterexample:
  "latency_ms lagging_sink > 1.5 * target_100_2
   \<and> \<not> latency_ms lagging_sink < 0.5 * target_100_2
   \<and> chunk_size lagging_sink = 1024
   \<and> chunk_size (fst (adjust_latency lagging_sink target_100_2)) = 1024"
  by code_simp

subsection \<open>Stopping\<close>

lemma clear_queue_empty: "clear_queue q = []"
  by (induction q) simp_all

lemma stop_streaming_flags:
  "\<not> is_streaming (fst (stop_streaming s)) \<and> \<not> is_recording (fst (stop_streaming s))
   \<and> audio_queue (fst (stop_streaming s)) = audio_queue s
   \<and> pyaudio_instance (fst (stop_streaming s)) = pyaudio_instance s"
  by (cases "output_stream s"; cases "input_stream s"; cases "stream_thread s")
     (auto simp: stop_streaming_def close_output_def close_input_def join_thread_def Let_def)

lemma stop_streaming_handles:
  assumes "closes_cleanly (output_stream s)" and "closes_cleanly (input_stream s)"
  shows "output_stream (fst (stop_streaming s)) = None
         \<and> input_stream (fst (stop_streaming s)) = None
         \<and> snd (stop_streaming s) = [Info ''Audio streaming stopped'']"
  using assms
  by (cases "output_stream s"; cases "input_stream s"; cases "stream_thread s")
     (auto simp: stop_streaming_def close_output_def close_input_def join_thread_def Let_def
        closes_cleanly_def)

lemma stop_streaming_twice:
  "fst (stop_streaming (fst (stop_streaming s))) = fst (stop_streaming s)"
  by (cases "output_stream s"; cases "input_stream s"; cases "stream_thread s")
     (auto simp: stop_streaming_def close_output_def close_input_def join_thread_def Let_def
        split: option.splits sum.splits if_splits)

lemma cleanup_fields:
  "audio_queue (fst (cleanup s)) = [] \<and> pyaudio_instance (fst (cleanup s)) = None
   \<and> is_streaming (fst (cleanup s)) = is_streaming (fst (stop_streaming s))
   \<and> is_recording (fst (cleanup s)) = is_recording (fst (stop_streaming s))
   \<and> output_stream (fst (cleanup s)) = output_stream (fst (stop_streaming s))
   \<and> input_stream (fst (cleanup s)) = input_stream (fst (stop_streaming s))"
  by (cases "stop_streaming s"; cases "pyaudio_instance (fst (stop_streaming s))")
     (simp_all add: cleanup_def terminate_pyaudio_def clear_queue_empty)

text \<open>
  C7 (as the code has it). After \<open>stop_streaming\<close> the sink is neither streaming nor
  recording, and both stream handles are closed and dropped provided the device calls
  on them return. \<open>stop_streaming\<close> does not touch the queue: the chunks that were
  waiting are still there. It is \<open>cleanup\<close> that, after stopping in the same way,
  also releases the PyAudio instance and leaves the queue empty.
\<close>

theorem stop_streaming_and_cleanup:
  "\<not> is_streaming (fst (stop_streaming s)) \<and> \<not> is_recording (fst (stop_streaming s))
   \<and> audio_queue (fst (stop_streaming s)) = audio_queue s
   \<and> (closes_cleanly (output_stream s) \<and> closes_cleanly (input_stream s) \<longrightarrow>
        output_stream (fst (stop_streaming s)) = None
        \<and> input_stream (fst (stop_streaming s)) = None)
   \<and> \<not> is_streaming (fst (cleanup s)) \<and> \<not> is_recording (fst (cleanup s))
   \<and> audio_queue (fst (cleanup s)) = []
   \<and> pyaudio_instance (fst (cleanup s)) = None
   \<and> (closes_cleanly (output_stream s) \<and> closes_cleanly (input_stream s) \<longrightarrow>
        output_stream (fst (cleanup s)) = None \<and> input_stream (fst (cleanup s)) = None)"
  using stop_streaming_flags [of s] stop_streaming_handles [of s] cleanup_fields [of s]
  by simp

theorem stop_streaming_and_cleanup_witness:
  "closes_cleanly (output_stream playing_sink) \<and> closes_cleanly (input_stream playing_sink)
   \<and> \<not> is_streaming (fst (stop_streaming playing_sink))
   \<and> output_stream (fst (stop_streaming playing_sink)) = None
   \<and> audio_queue (fst (stop_streaming playing_sink)) = [QBytes [1, 2]]
   \<and> audio_queue (fst (cleanup playing_sink)) = []
   \<and> output_stream (fst (cleanup playing_sink)) = None"
  using stop_streaming_and_cleanup [of playing_sink]
  by (simp add: playing_sink_def init_streamer_def closes_cleanly_def)

text \<open>
  The claim as written fails for \<open>stop_streaming\<close>: stopping a sink that is playing
  with one chunk waiting leaves that chunk in the queue.
\<close>

theorem stop_streaming_keeps_queue_counterexample:
  "is_streaming playing_sink
   \<and> \<not> is_streaming (fst (stop_streaming playing_sink))
   \<and> audio_queue (fst (stop_streaming playing_sink)) \<noteq> []"
  by (simp add: playing_sink_def init_streamer_def stop_streaming_def close_output_def
        close_input_def join_thread_def)

text \<open>
  C8. \<open>stop_streaming\<close> returns from every state (every exception is handled inside),
  leaves the sink not streaming, and a second call right after the first changes
  nothing: the state after the second call is the state after the first. When the
  device calls return, neither call logs an error.
\<close>

theorem stop_streaming_idempotent:
  "fst (stop_streaming (fst (stop_streaming s))) = fst (stop_streaming s)
   \<and> \<not> is_streaming (fst (stop_streaming s))
   \<and> \<not> is_streaming (fst (stop_streaming (fst (stop_streaming s))))
   \<and> (closes_cleanly (output_stream s) \<and> closes_cleanly (input_stream s) \<longrightarrow>
        snd (stop_streaming s) = [Info ''Audio streaming stopped'']
        \<and> snd (stop_streaming (fst (stop_streaming s))) = [Info ''Audio streaming stopped''])"
proof -
  have twice: "fst (stop_streaming (fst (stop_streaming s))) = fst (stop_streaming s)"
    by (rule stop_streaming_twice)
  have idle: "\<not> is_streaming (fst (stop_streaming s))"
    using stop_streaming_flags [of s] by simp
  have quiet: "snd (stop_streaming s) = [Info ''Audio streaming stopped'']
               \<and> snd (stop_streaming (fst (stop_streaming s))) = [Info ''Audio streaming stopped'']"
    if clean: "closes_cleanly (output_stream s) \<and> closes_cleanly (input_stream s)"
  proof -
    have first: "output_stream (fst (stop_streaming s)) = None
                 \<and> input_stream (fst (stop_streaming s)) = None
                 \<and> snd (stop_streaming s) = [Info ''Audio streaming stopped'']"
      using clean stop_streaming_handles [of s] by simp
    then have "closes_cleanly (output_stream (fst (stop_streaming s)))
               \<and> closes_cleanly (input_stream (fst (stop_streaming s)))"
      by (simp add: closes_cleanly_def)
    then have "snd (stop_streaming (fst (stop_streaming s))) = [Info ''Audio streaming stopped'']"
      using stop_streaming_handles [of "fst (stop_streaming s)"] by simp
    with first show ?thesis by simp
  qed
  from twice idle quiet show ?thesis by simp
qed

theorem stop_streaming_idempotent_witness:
  "closes_cleanly (output_stream playing_sink) \<and> closes_cleanly (input_stream playing_sink)
   \<and> fst (stop_streaming (fst (stop_streaming playing_sink))) = fst (stop_streaming playing_sink)
   \<and> snd (stop_streaming playing_sink) = [Info ''Audio streaming stopped'']
   \<and> snd (stop_streaming (fst (stop_streaming playing_sink))) = [Info ''Audio streaming stopped'']"
  using stop_streaming_idempotent [of playing_sink]
  by (simp add: playing_sink_def init_streamer_def closes_cleanly_def)

section \<open>Properties of the voice manager\<close>

subsection \<open>Chunking a batch buffer\<close>

lemma chunks_from_concat:
  "0 < step \<Longrightarrow> concat (chunks_from i step bs) = drop i bs"
proof (induction i step bs rule: chunks_from.induct)
  case (1 i step bs)
  show ?case
  proof (cases "length bs \<le> i")
    case True
    then show ?thesis by (simp add: chunks_from.simps [of i step bs])
  next
    case False
    with 1 have "concat (chunks_from (i + step) step bs) = drop (i + step) bs" by simp
    moreover have "take step (drop i bs) @ drop (i + step) bs = drop i bs"
      by (metis add.commute append_take_drop_id drop_drop)
    ultimately show ?thesis using False 1(2)
      by (simp add: chunks_from.simps [of i step bs])
  qed
qed

lemma chunks_from_index:
  "0 < step \<Longrightarrow> k < length (chunks_from i step bs) \<Longrightarrow>
     i + k * step < length bs \<and> chunks_from i step bs ! k = take step (drop (i + k * step) bs)"
proof (induction i step bs arbitrary: k rule: chunks_from.induct)
  case (1 i step bs)
  show ?case
  proof (cases "length bs \<le> i")
    case True
    with 1(3) show ?thesis by (simp add: chunks_from.simps [of i step bs])
  next
    case False
    have unf: "chunks_from i step bs = take step (drop i bs) # chunks_from (i + step) step bs"
      using False 1(2) by (simp add: chunks_from.simps [of i step bs])
    show ?thesis
    proof (cases k)
      case 0
      with unf False show ?thesis by simp
    next
      case (Suc j)
      with 1(3) unf have "j < length (chunks_from (i + step) step bs)" by simp
      with 1(1) [of j] False 1(2)
      have "i + step + j * step < length bs
            \<and> chunks_from (i + step) step bs ! j = take step (drop (i + step + j * step) bs)"
        by simp
      with unf Suc show ?thesis by (simp add: add.assoc add.commute add.left_commute)
    qed
  qed
qed

lemma length_tobytes: "length (tobytes ws) = 2 * length ws"
  by (induction ws) (simp_all add: tobytes_def int16_bytes_def)

text \<open>
  C9. For a positive chunk size (the code always uses the default 1024),
  \<open>_convert_to_streaming\<close> yields consecutive slices of the int16 byte encoding of the
  buffer, two bytes per sample: chunk number \<open>k\<close> is the slice that starts at byte
  \<open>k * (2 * chunk_size)\<close>, every chunk but the last has exactly \<open>2 * chunk_size\<close> bytes,
  no chunk is empty or longer than that, and the chunks joined in order are the whole
  encoding.
\<close>

theorem convert_to_streaming_chunks:
  assumes "0 < chunk_sz"
  shows "concat (convert_to_streaming q audio chunk_sz) = tobytes (map q audio)
   \<and> length (tobytes (map q audio)) = 2 * length audio
   \<and> (\<forall>k < length (convert_to_streaming q audio chunk_sz).
          convert_to_streaming q audio chunk_sz ! k
            = take (2 * nat chunk_sz) (drop (k * (2 * nat chunk_sz)) (tobytes (map q audio)))
          \<and> k * (2 * nat chunk_sz) < length (tobytes (map q audio)))
   \<and> (\<forall>k. Suc k < length (convert_to_streaming q audio chunk_sz) \<longrightarrow>
          length (convert_to_streaming q audio chunk_sz ! k) = 2 * nat chunk_sz)
   \<and> (\<forall>c \<in> set (convert_to_streaming q audio chunk_sz).
          0 < length c \<and> length c \<le> 2 * nat chunk_sz)"
proof -
  define step where "step = 2 * nat chunk_sz"
  define bs where "bs = tobytes (map q audio)"
  define cs where "cs = convert_to_streaming q audio chunk_sz"
  have pos: "0 < step" using assms by (simp add: step_def)
  have "nat (chunk_sz * 2) = step" using assms by (simp add: step_def nat_mult_distrib)
  then have cs: "cs = chunks_from 0 step bs"
    using assms by (simp add: cs_def convert_to_streaming_def bs_def Let_def)
  have c1: "concat cs = bs" using chunks_from_concat [OF pos, of 0 bs] cs by simp
  have c2: "length bs = 2 * length audio" by (simp add: bs_def length_tobytes)
  have nth: "cs ! k = take step (drop (k * step) bs) \<and> k * step < length bs"
    if "k < length cs" for k
    using chunks_from_index [OF pos, of k 0 bs] that cs by simp
  have full: "length (cs ! k) = step" if "Suc k < length cs" for k
  proof -
    have "Suc k * step < length bs" using nth [OF that] by simp
    moreover have "cs ! k = take step (drop (k * step) bs)" using nth [of k] that by simp
    ultimately show ?thesis by simp
  qed
  have each: "0 < length c \<and> length c \<le> step" if "c \<in> set cs" for c
  proof -
    from that obtain k where k: "k < length cs" "cs ! k = c" by (auto simp: in_set_conv_nth)
    with nth [of k] pos show ?thesis by auto
  qed
  from c1 c2 nth full each show ?thesis
    unfolding step_def bs_def cs_def by blast
qed

theorem convert_to_streaming_chunks_witness:
  "(0::int) < 2
   \<and> convert_to_streaming example_scale [0, 1, 1] 2 = [[2, 1, 2, 1], [2, 1]]
   \<and> concat (convert_to_streaming example_scale [0, 1, 1] 2)
       = tobytes (map example_scale [0, 1, 1 :: real])
   \<and> length (convert_to_streaming example_scale [0, 1, 1] 2 ! 0) = 4"
proof -
  have pos: "(0::int) < 2" by simp
  have val: "convert_to_streaming example_scale [0, 1, 1] 2 = [[2, 1, 2, 1], [2, 1]]"
    by (simp add: convert_to_streaming_def tobytes_def int16_bytes_def example_scale_def
          chunks_from.simps [of _ 4])
  have "concat (convert_to_streaming example_scale [0, 1, 1] 2)
          = tobytes (map example_scale [0, 1, 1 :: real])"
    by (rule convert_to_streaming_chunks [OF pos, THEN conjunct1])
  with pos val show ?thesis by simp
qed

subsection \<open>Profile lookup\<close>






text \<open>
  The handler of \<open>synthesize\<close> is never entered: the body of its \<open>try\<close> always returns.
\<close>

lemma synthesize_try_returns:
  "synthesize_try q m t n l mode =
     Inr (if \<not> is_initialized m then (NoResult, [Log (Error ''Voice Manager not initialized'')])
          else case select_engine m mode of
                 None \<Rightarrow> (NoResult, [Log (Error ''No suitable engine available'')])
               | Some e \<Rightarrow> dispatch q m e t l (get_voice_profile m n) mode)"
  by (simp add: synthesize_try_def Let_def split: option.splits)

lemma synthesize_eq:
  "synthesize q m t n l mode =
     (if \<not> is_initialized m then (NoResult, [Log (Error ''Voice Manager not initialized'')])
      else case select_engine m mode of
             None \<Rightarrow> (NoResult, [Log (Error ''No suitable engine available'')])
           | Some e \<Rightarrow> dispatch q m e t l (get_voice_profile m n) mode)"
  by (simp add: synthesize_def synthesize_try_returns)




subsection \<open>Construction of voice profiles\<close>

lemma map_of_dict_set: "map_of (dict_set k v d) = (map_of d)(k \<mapsto> v)"
  by (induction d) (auto simp: fun_eq_iff)

lemma default_literals_positive:
  "0 < float_round (6 / 5) \<and> 0 < float_round 1 \<and> 0 < float_round (9 / 10)
   \<and> 0 < float_round (4 / 5) \<and> 0 < float_round (13 / 10)"
  by code_simp

lemma float_round_0_9: "float_round (9 / 10) = 8106479329266893 / 2 ^ 53"
  by code_simp

text \<open>
  C5 (as the code has it). \<open>VoiceProfile.__init__\<close> validates nothing: every
  construction succeeds and the profile it returns has exactly the pitch and the speed
  it was given, so a constructed profile has a positive pitch (speed) exactly when the
  argument is positive. The three profiles that \<open>_load_default_profiles\<close> registers all
  have positive pitch and speed.
\<close>

theorem new_VoiceProfile_stores_arguments:
  "pitch (new_VoiceProfile n g a l p s e v) = p
   \<and> speed (new_VoiceProfile n g a l p s e v) = s
   \<and> (0 < pitch (new_VoiceProfile n g a l p s e v) \<longleftrightarrow> 0 < p)
   \<and> (0 < speed (new_VoiceProfile n g a l p s e v) \<longleftrightarrow> 0 < s)
   \<and> (\<forall>k \<in> {''cute_girl'', ''asmr_girl'', ''energetic_girl''}.
        \<exists>vp. map_of (voice_profiles (load_default_profiles m)) k = Some vp
             \<and> 0 < pitch vp \<and> 0 < speed vp)"
  by (simp add: new_VoiceProfile_def load_default_profiles_def Let_def map_of_dict_set
        default_literals_positive)

theorem new_VoiceProfile_stores_arguments_witness:
  "pitch (new_VoiceProfile ''soft'' ''female'' ''young'' ''auto'' 0.5 2 ''calm'' None) = 0.5
   \<and> speed (new_VoiceProfile ''soft'' ''female'' ''young'' ''auto'' 0.5 2 ''calm'' None) = 2
   \<and> ''asmr_girl'' \<in> {''cute_girl'', ''asmr_girl'', ''energetic_girl''}
   \<and> map_option pitch
        (map_of (voice_profiles (load_default_profiles init_manager)) ''asmr_girl'')
       = Some (8106479329266893 / 2 ^ 53)"
  using new_VoiceProfile_stores_arguments
          [where n = "''soft''" and g = "''female''" and a = "''young''" and l = "''auto''"
             and p = "0.5" and s = 2 and e = "''calm''" and v = None and m = init_manager]
  by (simp add: new_VoiceProfile_def load_default_profiles_def init_manager_def Let_def
        float_round_0_9)

text \<open>
  The claim as written fails: construction with pitch 0 and speed -1 does not fail;
  it produces a profile with exactly those values.
\<close>

theorem new_VoiceProfile_nonpositive_counterexample:
  "pitch (new_VoiceProfile ''flat'' ''female'' ''young'' ''auto'' 0 (- 1) ''neutral'' None) = 0
   \<and> speed (new_VoiceProfile ''flat'' ''female'' ''young'' ''auto'' 0 (- 1) ''neutral'' None) = - 1"
  by (simp add: new_VoiceProfile_def)

subsection \<open>Engine selection and dispatch\<close>

lemma invocations_batch:
  "\<forall>(i, a) \<in> set (invocations (snd (synthesize_batch e t l vp))). i = eid e \<and> supports e a"
  by (auto simp: synthesize_batch_def supports_def Let_def split: option.splits outcome.splits)

lemma invocations_streaming:
  "\<forall>(i, a) \<in> set (invocations (snd (synthesize_streaming q e t l vp))).
      i = eid e \<and> supports e a"
  by (auto simp: synthesize_streaming_def supports_def Let_def
        split: option.splits outcome.splits)

lemma invocations_realtime:
  "\<forall>(i, a) \<in> set (invocations (snd (synthesize_realtime q m e t l vp))).
      \<exists>e'. (e' = e \<or> map_of (engines m) REALTIME_TTS = Some e') \<and> i = eid e' \<and> supports e' a"
proof (cases "map_of (engines m) REALTIME_TTS")
  case None
  then show ?thesis using invocations_streaming [of q e t l vp]
    by (auto simp: synthesize_realtime_def)
next
  case (Some r)
  then show ?thesis
    by (auto simp: synthesize_realtime_def supports_def Let_def
          split: option.splits outcome.splits)
qed

lemma invocations_synthesize:
  "\<forall>(i, a) \<in> set (invocations (snd (synthesize q m t n l mode))).
      \<exists>e'. select_engine m mode = Some e' \<and> i = eid e' \<and> supports e' a"
proof (cases "is_initialized m")
  case False
  then show ?thesis by (simp add: synthesize_eq)
next
  case True
  show ?thesis
  proof (cases "select_engine m mode")
    case None
    with True show ?thesis by (simp add: synthesize_eq)
  next
    case (Some e0)
    with True have eq: "synthesize q m t n l mode = dispatch q m e0 t l (get_voice_profile m n) mode"
      by (simp add: synthesize_eq)
    have "\<forall>(i, a) \<in> set (invocations (snd (dispatch q m e0 t l (get_voice_profile m n) mode))).
            \<exists>e'. select_engine m mode = Some e' \<and> i = eid e' \<and> supports e' a"
    proof (cases mode)
      case BATCH
      with Some invocations_batch [of e0 t l "get_voice_profile m n"]
      show ?thesis by (auto simp: dispatch_def)
    next
      case STREAMING
      with Some invocations_streaming [of q e0 t l "get_voice_profile m n"]
      show ?thesis by (auto simp: dispatch_def)
    next
      case REALTIME
      have sel: "select_engine m REALTIME = Some r"
        if "map_of (engines m) REALTIME_TTS = Some r" for r
        using that by (simp add: select_engine_def)
      from REALTIME Some invocations_realtime [of q m e0 t l "get_voice_profile m n"] sel
      show ?thesis by (fastforce simp: dispatch_def)
    qed
    then show ?thesis by (simp only: eq)
  qed
qed

text \<open>
  C2 (as the code has it). \<open>_select_engine\<close> does not look at capabilities: for batch
  and streaming mode it returns the current engine whenever one is set, whatever
  attributes that engine has. Capability is checked when the request is dispatched.
  Every engine attribute that \<open>synthesize\<close> calls is called on the selected engine and
  exists on it. A batch request whose selected engine has no \<open>synthesize\<close> returns no
  result without calling anything. A streaming request whose selected engine has
  \<open>synthesize\<close> but no \<open>synthesize_streaming\<close> makes the batch call on that engine and
  nothing else; when the call returns audio, the result is that audio cut into chunks
  of 1024 samples by \<open>_convert_to_streaming\<close>, and when it raises or returns \<open>None\<close>
  there is no result. So with a batch-only primary E1 as current engine and an
  incremental fallback E2, a streaming request makes one call, the batch call on E1,
  and E2 is not called.
\<close>

theorem select_engine_ignores_capability:
  assumes args: "ab = \<lparr> arg_text = t, arg_language = l,
                        arg_speaker_wav = speaker_wav_of (get_voice_profile m n),
                        arg_voice_profile = get_voice_profile m n \<rparr>"
  shows
  "(current_engine m = Some e \<and> mode \<noteq> REALTIME \<longrightarrow> select_engine m mode = Some e)
   \<and> (\<forall>(i, a) \<in> set (invocations (snd (synthesize q m t n l mode))).
        \<exists>e'. select_engine m mode = Some e' \<and> i = eid e' \<and> supports e' a)
   \<and> (is_initialized m \<and> select_engine m BATCH = Some e \<and> \<not> supports e Synthesize \<longrightarrow>
        synthesize q m t n l BATCH
          = (NoResult, [Log (Error ''Engine doesn't support batch synthesis'')]))
   \<and> (is_initialized m \<and> select_engine m STREAMING = Some e
        \<and> synthesize_attr e = Some f \<and> synthesize_streaming_attr e = None \<longrightarrow>
        synthesize q m t n l STREAMING =
          (case f ab of
             Raises \<Rightarrow>
               (NoResult,
                [Call (eid e) Synthesize ab, Log (Error ''Streaming synthesis failed'')])
           | Returns None \<Rightarrow>
               (NoResult,
                [Call (eid e) Synthesize ab,
                 Log (Error ''Engine doesn't support streaming synthesis'')])
           | Returns (Some audio) \<Rightarrow>
               (Chunks (map BytesChunk (convert_to_streaming q audio 1024)),
                [Call (eid e) Synthesize ab])))
   \<and> (is_initialized m \<and> current_engine m = Some e \<and> supports e Synthesize
        \<and> \<not> supports e SynthesizeStreaming \<longrightarrow>
        invocations (snd (synthesize q m t n l STREAMING)) = [(eid e, Synthesize)])"
proof -
  have sel: "select_engine m mode = Some e" if "current_engine m = Some e" "mode \<noteq> REALTIME"
    using that by (cases mode) (simp_all add: select_engine_def)
  have inv: "\<forall>(i, a) \<in> set (invocations (snd (synthesize q m t n l mode))).
        \<exists>e'. select_engine m mode = Some e' \<and> i = eid e' \<and> supports e' a"
    by (rule invocations_synthesize)
  have nob: "synthesize q m t n l BATCH
          = (NoResult, [Log (Error ''Engine doesn't support batch synthesis'')])"
    if "is_initialized m" "select_engine m BATCH = Some e" "\<not> supports e Synthesize"
    using that
    by (simp add: synthesize_eq dispatch_def synthesize_batch_def supports_def)
  have conv: "synthesize q m t n l STREAMING =
          (case f ab of
             Raises \<Rightarrow>
               (NoResult,
                [Call (eid e) Synthesize ab, Log (Error ''Streaming synthesis failed'')])
           | Returns None \<Rightarrow>
               (NoResult,
                [Call (eid e) Synthesize ab,
                 Log (Error ''Engine doesn't support streaming synthesis'')])
           | Returns (Some audio) \<Rightarrow>
               (Chunks (map BytesChunk (convert_to_streaming q audio 1024)),
                [Call (eid e) Synthesize ab]))"
    if "is_initialized m" "select_engine m STREAMING = Some e"
       "synthesize_attr e = Some f" "synthesize_streaming_attr e = None"
    using that
    by (simp add: synthesize_eq dispatch_def synthesize_streaming_def args Let_def
          split: outcome.splits option.splits)
  have str: "invocations (snd (synthesize q m t n l STREAMING)) = [(eid e, Synthesize)]"
    if "is_initialized m" "current_engine m = Some e" "supports e Synthesize"
       "\<not> supports e SynthesizeStreaming"
    using that
    by (auto simp: synthesize_eq select_engine_def dispatch_def synthesize_streaming_def
          supports_def Let_def split: option.splits outcome.splits)
  from sel inv nob conv str show ?thesis by blast
qed

theorem select_engine_ignores_capability_witness:
  "is_initialized
     (primary_and_fallback (batch_only 1 (Returns (Some [1])))
        (incremental_only 2 (Returns [NoneChunk])))
   \<and> current_engine
       (primary_and_fallback (batch_only 1 (Returns (Some [1])))
          (incremental_only 2 (Returns [NoneChunk])))
       = Some (batch_only 1 (Returns (Some [1])))
   \<and> supports (batch_only 1 (Returns (Some [1]))) Synthesize
   \<and> \<not> supports (batch_only 1 (Returns (Some [1]))) SynthesizeStreaming
   \<and> STREAMING \<noteq> REALTIME
   \<and> select_engine
       (primary_and_fallback (batch_only 1 (Returns (Some [1])))
          (incremental_only 2 (Returns [NoneChunk]))) STREAMING
       = Some (batch_only 1 (Returns (Some [1])))
   \<and> fst (synthesize example_scale
             (primary_and_fallback (batch_only 1 (Returns (Some [1])))
                (incremental_only 2 (Returns [NoneChunk])))
             ''hello'' None ''auto'' STREAMING)
       = Chunks (map BytesChunk (convert_to_streaming example_scale [1] 1024))
   \<and> invocations
       (snd (synthesize example_scale
               (primary_and_fallback (batch_only 1 (Returns (Some [1])))
                  (incremental_only 2 (Returns [NoneChunk])))
               ''hello'' None ''auto'' STREAMING))
       = [(1, Synthesize)]"
  using select_engine_ignores_capability
          [where m = "primary_and_fallback (batch_only 1 (Returns (Some [1])))
                        (incremental_only 2 (Returns [NoneChunk]))"
             and e = "batch_only 1 (Returns (Some [1]))" and mode = STREAMING
             and q = example_scale and t = "''hello''" and n = None and l = "''auto''"
             and f = "\<lambda>args. Returns (Some [1])", OF refl]
  by (simp add: primary_and_fallback_def batch_only_def supports_def)

text \<open>
  The claim as written fails twice. In its own scenario the streaming request calls
  E1 (identity 1), not E2. And where only the RealtimeTTS engine could be loaded, a
  batch request selects that engine although it has no batch attribute.
\<close>

theorem select_engine_capability_counterexample:
  "invocations
     (snd (synthesize example_scale
             (primary_and_fallback (batch_only 1 (Returns (Some [1])))
                (incremental_only 2 (Returns [NoneChunk])))
             ''hello'' None ''auto'' STREAMING))
     = [(1, Synthesize)]
   \<and> select_engine (realtime_alone (incremental_only 3 (Returns []))) BATCH
       = Some (incremental_only 3 (Returns []))
   \<and> \<not> supports (incremental_only 3 (Returns [])) Synthesize"
  by (simp add: synthesize_eq select_engine_def dispatch_def synthesize_streaming_def
        primary_and_fallback_def realtime_alone_def batch_only_def incremental_only_def
        supports_def Let_def)

subsection \<open>Fallback\<close>

lemma invocations_dispatch_length:
  "length (invocations (snd (dispatch q m e t l vp mode))) \<le> 1"
  by (cases mode)
     (auto simp: dispatch_def synthesize_batch_def synthesize_streaming_def
        synthesize_realtime_def Let_def split: option.splits outcome.splits)

text \<open>
  Whatever the engines do, \<open>synthesize\<close> makes at most one engine call: the three
  helpers turn every engine failure into \<open>None\<close> themselves, so the handler that would
  call \<open>_try_fallback\<close> is never entered.
\<close>

lemma synthesize_at_most_one_call:
  "length (invocations (snd (synthesize q m t n l mode))) \<le> 1"
  using invocations_dispatch_length [of q m _ t l "get_voice_profile m n" mode]
  by (simp add: synthesize_eq split: option.splits)

text \<open>
  C1 (where the code departs from it). A batch request on a manager whose primary
  engine (identity 1) fails, by raising or by returning \<open>None\<close>, and whose distinct
  fallback (identity 2) would succeed: \<open>synthesize\<close> returns no result after the one
  call on the primary; the fallback is not called. With both engines failing the
  request also ends after that one call, not two.
\<close>

theorem synthesize_never_reaches_fallback:
  "fst (synthesize example_scale
          (primary_and_fallback (batch_only 1 Raises) (batch_only 2 (Returns (Some [1]))))
          ''hello'' None ''auto'' BATCH) = NoResult
   \<and> invocations
       (snd (synthesize example_scale
               (primary_and_fallback (batch_only 1 Raises) (batch_only 2 (Returns (Some [1]))))
               ''hello'' None ''auto'' BATCH)) = [(1, Synthesize)]
   \<and> fst (synthesize example_scale
            (primary_and_fallback (batch_only 1 (Returns None))
               (batch_only 2 (Returns (Some [1]))))
            ''hello'' None ''auto'' BATCH) = NoResult
   \<and> invocations
       (snd (synthesize example_scale
               (primary_and_fallback (batch_only 1 (Returns None))
                  (batch_only 2 (Returns (Some [1]))))
               ''hello'' None ''auto'' BATCH)) = [(1, Synthesize)]
   \<and> invocations
       (snd (synthesize example_scale
               (primary_and_fallback (batch_only 1 Raises) (batch_only 2 Raises))
               ''hello'' None ''auto'' BATCH)) = [(1, Synthesize)]"
  by (simp add: synthesize_def synthesize_try_def select_engine_def dispatch_def
        synthesize_batch_def primary_and_fallback_def batch_only_def Let_def)

end
